theory Spec2Isabelle
  imports Complex_Main "HOL-Library.AList"
begin

section \<open>The live-session view (pages/Dashboard.jsx, component ZoomMeetingEnhanced)\<close>

text \<open>
  The view keeps three pieces of state that the socket handler \<open>handleEmotionUpdate\<close>
  changes: the object \<open>participantEmotions\<close> (keyed by participant id), the ref
  \<open>timelineDataRef.current\<close> and the React state \<open>emotionTimeline\<close>.
  \<open>fetchSessionStats\<close> reads \<open>emotionTimeline\<close> and \<open>participantEmotions\<close>
  and writes \<open>sessionStats\<close> and \<open>alert\<close>.

  JavaScript numbers are modelled as real numbers (exact arithmetic). A function of the
  component is a closure of the render that defined it: the state variables it reads
  are those of that render, and they are an argument of the model of the function.
\<close>

subsection \<open>Data\<close>

text \<open>
  The \<open>timestamp\<close> of an entry is the one the server sent, a \<open>Date\<close> object
  (\<open>new Date()\<close>, milliseconds since the epoch) or the text that
  \<open>new Date().toLocaleTimeString()\<close> returned.
\<close>

datatype js_time = ServerTime int | DateObject int | LocaleTimeString string

record emotion_data =
  participantId :: string
  emotion :: string
  confidence :: real
  timestamp :: js_time

text \<open>The two clock readings one run of the handler makes.\<close>

record clock =
  new_Date :: int
  toLocaleTimeString :: string

record alert_data =
  level :: string
  message :: string
  percentage :: real

text \<open>
  The response of \<open>sessionAPI.getSessionStats\<close>; \<open>sessionStats\<close> is a copy of it
  with \<open>engagement_score\<close> and \<open>participant_count\<close> replaced. A field that may be
  missing is an option.
\<close>

record session_stats =
  success :: bool
  response_alert :: "alert_data option"
  total_detections :: "nat option"
  emotion_percentages :: "(string \<times> real) list"
  engagement_score :: "real option"
  participant_count :: "nat option"

record view_state =
  participantEmotions :: "(string \<times> emotion_data) list"
  timelineDataRef :: "emotion_data list"
  emotionTimeline :: "emotion_data list"
  sessionStats :: "session_stats option"
  alert :: "alert_data option"

text \<open>The state after mounting: \<open>useState({})\<close>, \<open>useRef([])\<close>, \<open>useState([])\<close>,
  \<open>useState(null)\<close>, \<open>useState(null)\<close>.\<close>

definition initial_view :: view_state where
  "initial_view =
     \<lparr>participantEmotions = [], timelineDataRef = [], emotionTimeline = [],
      sessionStats = None, alert = None\<rparr>"

definition MAX_TIMELINE_POINTS :: nat where
  "MAX_TIMELINE_POINTS = 20"

subsection \<open>handleEmotionUpdate\<close>

text \<open>
  \<^verbatim>\<open>setParticipantEmotions(prev => ({...prev, [data.participantId]: {...data, timestamp: new Date()}}))\<close>
  An object is an association list with one entry per key: writing an existing key
  replaces its value in place, a new key is added at the end (\<open>AList.update\<close>).
  JavaScript lists integer-like keys first; no property below depends on the order.
  A participant id is the text it has as a key of the object.
\<close>

definition participant_entry :: "clock \<Rightarrow> emotion_data \<Rightarrow> emotion_data" where
  "participant_entry c data = data\<lparr>timestamp := DateObject (new_Date c)\<rparr>"

definition timeline_entry :: "clock \<Rightarrow> emotion_data \<Rightarrow> emotion_data" where
  "timeline_entry c data = data\<lparr>timestamp := LocaleTimeString (toLocaleTimeString c)\<rparr>"

text \<open>\<open>Array.prototype.shift\<close>: removes the first element (nothing on an empty array).\<close>

definition shift :: "'a list \<Rightarrow> 'a list" where
  "shift xs = (case xs of [] \<Rightarrow> [] | _ # rest \<Rightarrow> rest)"

definition handleEmotionUpdate :: "clock \<Rightarrow> emotion_data \<Rightarrow> view_state \<Rightarrow> view_state" where
  "handleEmotionUpdate c data s =
     (let newTimelineData0 = timelineDataRef s @ [timeline_entry c data];
          newTimelineData =
            (if length newTimelineData0 > MAX_TIMELINE_POINTS then shift newTimelineData0
             else newTimelineData0)
      in s\<lparr>participantEmotions :=
              AList.update (participantId data) (participant_entry c data) (participantEmotions s),
            timelineDataRef := newTimelineData,
            emotionTimeline := newTimelineData\<rparr>)"

text \<open>
  The handler ends by calling \<open>fetchSessionStats\<close>, which waits for the server and
  is a function of its own below.

  The view after a sequence of socket messages, each with its clock readings:
\<close>

definition run :: "(clock \<times> emotion_data) list \<Rightarrow> view_state" where
  "run msgs = foldl (\<lambda>s (c, data). handleEmotionUpdate c data s) initial_view msgs"

subsection \<open>fetchSessionStats\<close>

definition positiveEmotions :: "string list" where
  "positiveEmotions = [''happy'', ''surprise'']"

definition negativeEmotions :: "string list" where
  "negativeEmotions = [''sad'', ''angry'', ''fear'', ''disgust'']"

text \<open>\<open>xs.slice(-n)\<close>: from index \<open>max (length xs - n) 0\<close> to the end.\<close>

definition slice_from_end :: "nat \<Rightarrow> 'a list \<Rightarrow> 'a list" where
  "slice_from_end n xs = drop (length xs - n) xs"

text \<open>The \<open>forEach\<close> loop over \<open>recentEmotions\<close>, on the pair
  \<open>(positiveCount, negativeCount)\<close>.\<close>

fun countEmotions :: "emotion_data list \<Rightarrow> nat \<times> nat \<Rightarrow> nat \<times> nat" where
  "countEmotions [] (positiveCount, negativeCount) = (positiveCount, negativeCount)"
| "countEmotions (e # es) (positiveCount, negativeCount) =
     (if emotion e \<in> set positiveEmotions
        then countEmotions es (positiveCount + 1, negativeCount)
      else if emotion e \<in> set negativeEmotions
        then countEmotions es (positiveCount, negativeCount + 1)
      else countEmotions es (positiveCount, negativeCount))"

text \<open>\<open>recentEmotions.length || 1\<close>\<close>

definition window_total :: "emotion_data list \<Rightarrow> nat" where
  "window_total recentEmotions =
     (if length recentEmotions = 0 then 1 else length recentEmotions)"

definition engagementScore :: "emotion_data list \<Rightarrow> real" where
  "engagementScore timeline =
     (let recentEmotions = slice_from_end 10 timeline;
          (positiveCount, negativeCount) = countEmotions recentEmotions (0, 0);
          total = window_total recentEmotions
      in max 0 (min 100
           (50 + ((real positiveCount - real negativeCount) / real total) * 50)))"

text \<open>
  \<open>fetchSessionStats\<close> is defined anew by every render, and the variables
  \<open>emotionTimeline\<close> and \<open>participantEmotions\<close> in its body are those of the
  render that defined it (the argument \<open>render\<close>), not the current state. What it
  writes, \<open>setSessionStats\<close> and \<open>setAlert\<close>, goes to the current state.
  The response is \<open>None\<close> when the request throws (the \<open>catch\<close> only logs).
  \<open>Object.keys(participantEmotions).length\<close> is the number of entries.
\<close>

definition fetchSessionStats ::
    "view_state \<Rightarrow> session_stats option \<Rightarrow> view_state \<Rightarrow> view_state" where
  "fetchSessionStats render resp s =
     (case resp of
        None \<Rightarrow> s
      | Some response \<Rightarrow>
          if success response then
            let s1 = s\<lparr>sessionStats :=
                        Some (response\<lparr>engagement_score :=
                                          Some (engagementScore (emotionTimeline render)),
                                        participant_count :=
                                          Some (length (participantEmotions render))\<rparr>)\<rparr>
            in (case response_alert response of
                  Some a \<Rightarrow> s1\<lparr>alert := Some a\<rparr>
                | None \<Rightarrow> s1)
          else s)"

text \<open>
  The socket handler is registered by the effect of the mount render
  (\<open>useEffect\<close> with dependencies \<open>[sessionId]\<close>), so the \<open>fetchSessionStats\<close> it
  calls at its end is the one of the mount render, whose state is \<open>initial_view\<close>.
  One socket message, together with the response to the request it starts (taken to
  arrive before the next message):
\<close>

definition socket_message ::
    "clock \<Rightarrow> emotion_data \<Rightarrow> session_stats option \<Rightarrow> view_state \<Rightarrow> view_state" where
  "socket_message c data resp s =
     fetchSessionStats initial_view resp (handleEmotionUpdate c data s)"

definition live_run :: "(clock \<times> emotion_data \<times> session_stats option) list \<Rightarrow> view_state" where
  "live_run msgs =
     foldl (\<lambda>s (c, data, resp). socket_message c data resp s) initial_view msgs"

text \<open>
  The poll (\<open>setInterval(fetchSessionStats, 5000)\<close>) is started by the effect of the
  render in which \<open>isTracking\<close> became true, and calls the \<open>fetchSessionStats\<close> of
  that render: \<open>fetchSessionStats tracking_render\<close>.
\<close>

subsection \<open>EmotionStats: the engagement score on screen\<close>

text \<open>
  \<^verbatim>\<open>{stats.engagement_score ? stats.engagement_score.toFixed(0) : 0}%\<close> and
  \<^verbatim>\<open>style={{ width: `${stats.engagement_score || 0}%` }}\<close>.
  The score is \<open>None\<close> when it is absent (\<open>undefined\<close>, \<open>null\<close>) or \<open>NaN\<close>,
  all of which are falsy, as the number 0 is.
\<close>

definition decimal_digit :: "nat \<Rightarrow> char" where
  "decimal_digit d = ''0123456789'' ! d"

fun decimal :: "nat \<Rightarrow> string" where
  "decimal n =
     (if n < 10 then [decimal_digit n]
      else decimal (n div 10) @ [decimal_digit (n mod 10)])"

declare decimal.simps [simp del]

text \<open>
  \<open>x.toFixed(0)\<close>: the sign, then the integer nearest to \<open>\<bar>x\<bar>\<close>, the larger one of
  two equally near. From \<open>10\<^sup>2\<^sup>1\<close> on the result is in exponent notation, which
  is not spelled out here (\<open>None\<close>).
\<close>

definition toFixed0 :: "real \<Rightarrow> string option" where
  "toFixed0 x =
     (if 10 ^ 21 \<le> \<bar>x\<bar> then None
      else Some ((if x < 0 then ''-'' else []) @ decimal (nat \<lfloor>\<bar>x\<bar> + 1 / 2\<rfloor>)))"

definition truthy :: "real option \<Rightarrow> bool" where
  "truthy v = (case v of None \<Rightarrow> False | Some x \<Rightarrow> x \<noteq> 0)"

record score_display =
  score_text :: "string option"
  bar_width :: real

definition EmotionStats_score :: "session_stats \<Rightarrow> score_display" where
  "EmotionStats_score stats =
     \<lparr>score_text =
        map_option (\<lambda>t. t @ ''%'')
          (if truthy (engagement_score stats)
           then (case engagement_score stats of Some x \<Rightarrow> toFixed0 x | None \<Rightarrow> None)
           else Some ''0''),
      bar_width =
        (if truthy (engagement_score stats)
         then (case engagement_score stats of Some x \<Rightarrow> x | None \<Rightarrow> 0)
         else 0)\<rparr>"

section \<open>The reference formulation of the score\<close>

text \<open>
  The engagement scorer as the specification words it: the window of the most recent
  \<open>W\<close> events, the positive and the negative labels counted, and the clamped formula.
\<close>

definition clamp :: "real \<Rightarrow> real \<Rightarrow> real \<Rightarrow> real" where
  "clamp x lo hi = (if x < lo then lo else if hi < x then hi else x)"

definition recency_window :: "nat \<Rightarrow> 'a list \<Rightarrow> 'a list" where
  "recency_window W events = rev (take W (rev events))"

definition reference_score :: "nat \<Rightarrow> string list \<Rightarrow> real" where
  "reference_score W emotions =
     (let window = recency_window W emotions;
          positiveCount = length (filter (\<lambda>l. l \<in> {''happy'', ''surprise''}) window);
          negativeCount =
            length (filter (\<lambda>l. l \<in> {''sad'', ''angry'', ''fear'', ''disgust''}) window);
          windowSize = length window
      in clamp (50 + ((real positiveCount - real negativeCount) / real (max 1 windowSize)) * 50)
           0 100)"

section \<open>The aggregation engine behind the view\<close>

text \<open>
  The validator, the aggregator, the alert evaluator and the session facade run on the
  server; their code is not among the sources of the front end, which only calls them
  (\<open>sessionAPI.getSessionStats\<close>, \<open>sessionAPI.stopSession\<close>,
  \<open>emotionAPI.analyzeEmotion\<close>). They are modelled here from the specification.
\<close>

text \<open>Modelled from the spec: the closed set \<open>EmotionLabel\<close> (section 3).\<close>

datatype EmotionLabel = Happy | Sad | Angry | Surprise | Fear | Disgust | Neutral

text \<open>Modelled from the spec: the seven labels, each once.\<close>

definition all_labels :: "EmotionLabel list" where
  "all_labels = [Happy, Sad, Angry, Surprise, Fear, Disgust, Neutral]"

text \<open>Modelled from the spec: the label as the text an event carries.\<close>

fun label_name :: "EmotionLabel \<Rightarrow> string" where
  "label_name Happy = ''happy''"
| "label_name Sad = ''sad''"
| "label_name Angry = ''angry''"
| "label_name Surprise = ''surprise''"
| "label_name Fear = ''fear''"
| "label_name Disgust = ''disgust''"
| "label_name Neutral = ''neutral''"

text \<open>Modelled from the spec: reading a label; any other text is no label.\<close>

definition label_of :: "string \<Rightarrow> EmotionLabel option" where
  "label_of s =
     (if s = ''happy'' then Some Happy
      else if s = ''sad'' then Some Sad
      else if s = ''angry'' then Some Angry
      else if s = ''surprise'' then Some Surprise
      else if s = ''fear'' then Some Fear
      else if s = ''disgust'' then Some Disgust
      else if s = ''neutral'' then Some Neutral
      else None)"

text \<open>Modelled from the spec: \<open>EmotionEvent\<close> (section 3).\<close>

record EmotionEvent =
  ev_sessionId :: string
  ev_participantId :: string
  ev_emotion :: EmotionLabel
  ev_confidence :: real
  ev_timestamp :: int

text \<open>
  Modelled from the spec: a raw event, before validation. Its confidence is a number or
  anything else (a string, \<open>NaN\<close>, nothing).
\<close>

datatype raw_number = Numeric real | NonNumeric

record rawEvent =
  raw_sessionId :: string
  raw_participantId :: string
  raw_emotion :: string
  raw_confidence :: raw_number
  raw_timestamp :: int

datatype ValidationError =
  InvalidEmotion | InvalidConfidence | MissingSessionId | MissingParticipantId

text \<open>
  Modelled from the spec: the validator \<open>normalize\<close> (section 4.1), here \<open>normalize_event\<close>, which is not in
  the front end's sources. It rejects a label outside the closed set, a confidence
  that is not numeric or outside [0,100], and an empty session or participant id; the
  error names the field.
\<close>

definition normalize_event :: "rawEvent \<Rightarrow> ValidationError + EmotionEvent" where
  "normalize_event r =
     (case label_of (raw_emotion r) of
        None \<Rightarrow> Inl InvalidEmotion
      | Some l \<Rightarrow>
          (case raw_confidence r of
             NonNumeric \<Rightarrow> Inl InvalidConfidence
           | Numeric c \<Rightarrow>
               if c < 0 \<or> 100 < c then Inl InvalidConfidence
               else if raw_sessionId r = [] then Inl MissingSessionId
               else if raw_participantId r = [] then Inl MissingParticipantId
               else Inr \<lparr>ev_sessionId = raw_sessionId r,
                         ev_participantId = raw_participantId r,
                         ev_emotion = l, ev_confidence = c,
                         ev_timestamp = raw_timestamp r\<rparr>))"

text \<open>Modelled from the spec: \<open>ParticipantState\<close> (section 3), keyed by participant id.\<close>

record ParticipantState =
  lastEmotion :: EmotionLabel
  lastConfidence :: real
  lastUpdated :: int

text \<open>Modelled from the spec: the state an accepted event leaves for its participant.\<close>

definition state_of_event :: "EmotionEvent \<Rightarrow> ParticipantState" where
  "state_of_event event =
     \<lparr>lastEmotion = ev_emotion event, lastConfidence = ev_confidence event,
      lastUpdated = ev_timestamp event\<rparr>"

text \<open>
  Modelled from the spec: the tracker of the aggregate (section 4.2), as the facade's
  \<open>ingest\<close> uses it. The tracker of the live view is \<open>handleEmotionUpdate\<close> above.
\<close>

definition tracker_update ::
    "(string \<times> ParticipantState) list \<Rightarrow> EmotionEvent \<Rightarrow> (string \<times> ParticipantState) list" where
  "tracker_update participants event =
     (case map_of participants (ev_participantId event) of
        None \<Rightarrow> AList.update (ev_participantId event) (state_of_event event) participants
      | Some existing \<Rightarrow>
          if lastUpdated existing \<le> ev_timestamp event
          then AList.update (ev_participantId event) (state_of_event event) participants
          else participants)"

text \<open>
  Modelled from the spec: the number of accepted events of the aggregator (section 4.3),
  the sum of the counts.
\<close>

definition totalAcceptedEvents :: "(EmotionLabel \<Rightarrow> nat) \<Rightarrow> nat" where
  "totalAcceptedEvents counts = sum_list (map counts all_labels)"

text \<open>
  Modelled from the spec: the aggregator's percentages (section 4.3), not in the front
  end's sources: the count over the number of accepted events, times 100, and 0 when
  there is no accepted event.
\<close>

definition summaryPercentages :: "(EmotionLabel \<Rightarrow> nat) \<Rightarrow> EmotionLabel \<Rightarrow> real" where
  "summaryPercentages counts label =
     (if totalAcceptedEvents counts = 0 then 0
      else real (counts label) / real (totalAcceptedEvents counts) * 100)"

text \<open>Modelled from the spec: the cumulative share of the negative labels (section 4.5).\<close>

definition disengagedPct :: "(EmotionLabel \<Rightarrow> real) \<Rightarrow> real" where
  "disengagedPct percentages =
     percentages Sad + percentages Angry + percentages Fear + percentages Disgust"

text \<open>
  Modelled from the spec: the alert evaluator (section 4.5), not in the front end's
  sources. The wording of the message is left open there, so it is a parameter.
\<close>

definition evaluate ::
    "(string \<Rightarrow> real \<Rightarrow> string) \<Rightarrow> (EmotionLabel \<Rightarrow> real) \<Rightarrow> alert_data option" where
  "evaluate template percentages =
     (let d = disengagedPct percentages
      in if 60 \<le> d then Some \<lparr>level = ''high'', message = template ''high'' d, percentage = d\<rparr>
         else if 35 \<le> d then Some \<lparr>level = ''low'', message = template ''low'' d, percentage = d\<rparr>
         else None)"

text \<open>Modelled from the spec: \<open>SessionAggregate\<close> (section 3).\<close>

record SessionAggregate =
  sessionId :: string
  startTime :: int
  endTime :: "int option"
  participants :: "(string \<times> ParticipantState) list"
  emotionCounts :: "EmotionLabel \<Rightarrow> nat"
  timeline :: "EmotionEvent list"
  aggregate_engagementScore :: real
  alertState :: "alert_data option"

datatype IngestError = Validation ValidationError | StateError

text \<open>
  Modelled from the spec: \<open>start\<close> of the session facade (section 4.7), not in the
  front end's sources: an Active aggregate with empty state.
\<close>

definition start :: "int \<Rightarrow> string \<Rightarrow> SessionAggregate" where
  "start now sid =
     \<lparr>sessionId = sid, startTime = now, endTime = None, participants = [],
      emotionCounts = (\<lambda>_. 0), timeline = [],
      aggregate_engagementScore = reference_score 10 [], alertState = None\<rparr>"

text \<open>
  Modelled from the spec: \<open>stop\<close> of the session facade (section 4.7), not in the
  front end's sources. A session is Stopped when its \<open>endTime\<close> is set.
\<close>

definition stop :: "int \<Rightarrow> SessionAggregate \<Rightarrow> SessionAggregate" where
  "stop now a = a\<lparr>endTime := Some now\<rparr>"

text \<open>
  Modelled from the spec: \<open>ingest\<close> of the session facade (section 4.7), not in the
  front end's sources. It routes an event through the validator, the tracker, the
  aggregator, the scorer (window of 10), the alert evaluator and the timeline recorder;
  on a Stopped session it is rejected with \<open>StateError\<close>.
\<close>

definition ingest ::
    "(string \<Rightarrow> real \<Rightarrow> string) \<Rightarrow> rawEvent \<Rightarrow> SessionAggregate \<Rightarrow> IngestError + SessionAggregate" where
  "ingest template r a =
     (if endTime a \<noteq> None then Inl StateError
      else case normalize_event r of
        Inl e \<Rightarrow> Inl (Validation e)
      | Inr event \<Rightarrow>
          let counts = (emotionCounts a)(ev_emotion event := emotionCounts a (ev_emotion event) + 1);
              events = timeline a @ [event]
          in Inr (a\<lparr>participants := tracker_update (participants a) event,
                     emotionCounts := counts,
                     timeline := events,
                     aggregate_engagementScore :=
                       reference_score 10 (map (\<lambda>e. label_name (ev_emotion e)) events),
                     alertState := evaluate template (summaryPercentages counts)\<rparr>))"

text \<open>
  Modelled from the spec: the aggregate a caller holds after an \<open>ingest\<close>, which is
  the old one when the event was rejected.
\<close>

definition after_ingest ::
    "(string \<Rightarrow> real \<Rightarrow> string) \<Rightarrow> rawEvent \<Rightarrow> SessionAggregate \<Rightarrow> SessionAggregate" where
  "after_ingest template r a = (case ingest template r a of Inl _ \<Rightarrow> a | Inr a' \<Rightarrow> a')"

section \<open>Sample inputs\<close>

definition clock_a :: clock where
  "clock_a = \<lparr>new_Date = 1000, toLocaleTimeString = ''10:00:01''\<rparr>"

definition clock_b :: clock where
  "clock_b = \<lparr>new_Date = 4000, toLocaleTimeString = ''10:00:04''\<rparr>"

definition P_happy_t10 :: emotion_data where
  "P_happy_t10 =
     \<lparr>participantId = ''P'', emotion = ''happy'', confidence = 90, timestamp = ServerTime 10\<rparr>"

definition P_sad_t5 :: emotion_data where
  "P_sad_t5 =
     \<lparr>participantId = ''P'', emotion = ''sad'', confidence = 80, timestamp = ServerTime 5\<rparr>"

definition R_angry :: emotion_data where
  "R_angry =
     \<lparr>participantId = ''R'', emotion = ''angry'', confidence = 95, timestamp = ServerTime 9\<rparr>"

definition Q_neutral :: emotion_data where
  "Q_neutral =
     \<lparr>participantId = ''Q'', emotion = ''neutral'', confidence = 70, timestamp = ServerTime 7\<rparr>"

definition ok_response :: session_stats where
  "ok_response =
     \<lparr>success = True, response_alert = None, total_detections = Some 3,
      emotion_percentages = [], engagement_score = None, participant_count = None\<rparr>"

definition sample_template :: "string \<Rightarrow> real \<Rightarrow> string" where
  "sample_template lvl d = ''Disengagement is '' @ lvl"

definition pct_sad :: "real \<Rightarrow> EmotionLabel \<Rightarrow> real" where
  "pct_sad x = (\<lambda>_. 0)(Sad := x)"

definition high_alert :: alert_data where
  "high_alert = \<lparr>level = ''high'', message = ''Disengagement is high'', percentage = 100\<rparr>"

definition raw_P1_happy :: rawEvent where
  "raw_P1_happy =
     \<lparr>raw_sessionId = ''S1'', raw_participantId = ''P1'', raw_emotion = ''happy'',
      raw_confidence = Numeric 90, raw_timestamp = 1\<rparr>"

definition raw_P2_sad :: rawEvent where
  "raw_P2_sad =
     \<lparr>raw_sessionId = ''S1'', raw_participantId = ''P2'', raw_emotion = ''sad'',
      raw_confidence = Numeric 80, raw_timestamp = 2\<rparr>"

definition raw_P1_overconfident :: rawEvent where
  "raw_P1_overconfident =
     \<lparr>raw_sessionId = ''S1'', raw_participantId = ''P1'', raw_emotion = ''happy'',
      raw_confidence = Numeric 150, raw_timestamp = 3\<rparr>"

definition counts_2_happy_1_sad :: "EmotionLabel \<Rightarrow> nat" where
  "counts_2_happy_1_sad = (\<lambda>_. 0)(Happy := 2, Sad := 1)"

section \<open>Facts about the live-session view\<close>

lemma run_Nil: "run [] = initial_view"
  by (simp add: run_def)

lemma run_snoc: "run (msgs @ [(c, data)]) = handleEmotionUpdate c data (run msgs)"
  by (simp add: run_def)

lemma shift_snoc_drop:
  assumes "n < length xs"
  shows "shift (drop n xs @ [x]) = drop (Suc n) (xs @ [x])"
proof -
  from assms obtain y ys where d: "drop n xs = y # ys"
    by (cases "drop n xs") auto
  have "drop (Suc n) xs = tl (drop n xs)"
    by (simp add: drop_Suc tl_drop)
  with d have "drop (Suc n) xs = ys" by simp
  with d assms show ?thesis by (simp add: shift_def)
qed

lemma timeline_step:
  "(let t0 = slice_from_end 20 xs @ [x] in if length t0 > 20 then shift t0 else t0)
     = slice_from_end 20 (xs @ [x])"
proof (cases "length xs < 20")
  case True
  then show ?thesis by (simp add: slice_from_end_def Let_def)
next
  case False
  then have n: "length xs - 20 < length xs" by simp
  from False have "Suc (length xs - 20) = Suc (length xs) - 20" by simp
  with False shift_snoc_drop [OF n, of x] show ?thesis
    by (simp add: slice_from_end_def Let_def)
qed

lemma timelineDataRef_run:
  "timelineDataRef (run msgs) = slice_from_end 20 (map (\<lambda>(c, data). timeline_entry c data) msgs)"
proof (induction msgs rule: rev_induct)
  case Nil
  show ?case by (simp add: run_Nil initial_view_def slice_from_end_def)
next
  case (snoc m msgs)
  obtain c data where m: "m = (c, data)" by (cases m)
  show ?case
    using timeline_step [of "map (\<lambda>(c, data). timeline_entry c data) msgs" "timeline_entry c data"]
    by (simp add: m run_snoc handleEmotionUpdate_def snoc.IH MAX_TIMELINE_POINTS_def Let_def)
qed

lemma emotionTimeline_run: "emotionTimeline (run msgs) = timelineDataRef (run msgs)"
proof (induction msgs rule: rev_induct)
  case Nil
  show ?case by (simp add: run_Nil initial_view_def)
next
  case (snoc m msgs)
  obtain c data where m: "m = (c, data)" by (cases m)
  show ?case by (simp add: m run_snoc handleEmotionUpdate_def Let_def)
qed

lemma participantEmotions_step:
  "participantEmotions (handleEmotionUpdate c data s)
     = AList.update (participantId data) (participant_entry c data) (participantEmotions s)"
  by (simp add: handleEmotionUpdate_def Let_def)

lemma keys_run:
  "fst ` set (participantEmotions (run msgs)) = set (map (\<lambda>(c, data). participantId data) msgs)"
proof (induction msgs rule: rev_induct)
  case Nil
  show ?case by (simp add: run_Nil initial_view_def)
next
  case (snoc m msgs)
  obtain c data where m: "m = (c, data)" by (cases m)
  show ?case by (simp add: m run_snoc participantEmotions_step dom_update snoc.IH)
qed

lemma distinct_keys_run: "distinct (map fst (participantEmotions (run msgs)))"
proof (induction msgs rule: rev_induct)
  case Nil
  show ?case by (simp add: run_Nil initial_view_def)
next
  case (snoc m msgs)
  obtain c data where m: "m = (c, data)" by (cases m)
  show ?case by (simp add: m run_snoc participantEmotions_step distinct_update snoc.IH)
qed

lemma count_run:
  "length (participantEmotions (run msgs)) = card (set (map (\<lambda>(c, data). participantId data) msgs))"
proof -
  have "length (participantEmotions (run msgs)) = length (map fst (participantEmotions (run msgs)))"
    by simp
  also have "\<dots> = card (set (map fst (participantEmotions (run msgs))))"
    using distinct_keys_run [of msgs] by (simp only: distinct_card)
  also have "\<dots> = card (set (map (\<lambda>(c, data). participantId data) msgs))"
    using keys_run [of msgs] by simp
  finally show ?thesis .
qed

lemma countEmotions_filter:
  "countEmotions es (p, n) =
     (p + length (filter (\<lambda>e. emotion e \<in> {''happy'', ''surprise''}) es),
      n + length (filter (\<lambda>e. emotion e \<in> {''sad'', ''angry'', ''fear'', ''disgust''}) es))"
  by (induction es arbitrary: p n) (auto simp: positiveEmotions_def negativeEmotions_def)

lemma slice_slice:
  assumes "m \<le> n"
  shows "slice_from_end m (slice_from_end n xs) = slice_from_end m xs"
proof -
  have "length xs - (length xs - n + m) + (length xs - n) = length xs - m"
    using assms by arith
  then show ?thesis by (simp add: slice_from_end_def)
qed

lemma recency_window_slice: "recency_window W xs = slice_from_end W xs"
  by (simp add: recency_window_def slice_from_end_def take_rev)

lemma slice_map: "slice_from_end n (map f xs) = map f (slice_from_end n xs)"
  by (simp add: slice_from_end_def drop_map)

lemma clamp_max_min: "clamp x 0 100 = max 0 (min 100 x)"
  by (simp add: clamp_def max_def min_def)

lemma window_total_max: "window_total w = max 1 (length w)"
  by (cases w) (simp_all add: window_total_def)

lemma engagementScore_reference:
  "engagementScore es = reference_score 10 (map emotion es)"
  by (simp add: engagementScore_def reference_score_def Let_def countEmotions_filter
      recency_window_slice slice_map comp_def clamp_max_min window_total_max)

lemma emotion_timeline_entry: "emotion (timeline_entry c data) = emotion data"
  by (simp add: timeline_entry_def)

lemma engagementScore_run:
  "engagementScore (emotionTimeline (run msgs)) = reference_score 10 (map (\<lambda>(c, data). emotion data) msgs)"
proof -
  have m: "emotion \<circ> (\<lambda>(c, data). timeline_entry c data) = (\<lambda>(c, data). emotion data)"
    by (auto simp: fun_eq_iff emotion_timeline_entry)
  have "engagementScore (emotionTimeline (run msgs))
          = reference_score 10 (slice_from_end 20 (map (\<lambda>(c, data). emotion data) msgs))"
    by (simp add: engagementScore_reference emotionTimeline_run timelineDataRef_run
        slice_map [symmetric] m)
  also have "\<dots> = reference_score 10 (map (\<lambda>(c, data). emotion data) msgs)"
    by (simp add: reference_score_def recency_window_slice slice_slice)
  finally show ?thesis .
qed

lemma engagementScore_range: "0 \<le> engagementScore es \<and> engagementScore es \<le> 100"
  by (simp add: engagementScore_def Let_def split: prod.splits)

lemma fetchSessionStats_alert:
  "alert (fetchSessionStats render (Some (r\<lparr>success := True, response_alert := x\<rparr>)) s)
     = (case x of Some a \<Rightarrow> Some a | None \<Rightarrow> alert s)"
  by (simp add: fetchSessionStats_def Let_def split: option.splits)

lemma fetchSessionStats_ok:
  "sessionStats (fetchSessionStats render (Some (r\<lparr>success := True\<rparr>)) s)
     = Some (r\<lparr>success := True,
               engagement_score := Some (engagementScore (emotionTimeline render)),
               participant_count := Some (length (participantEmotions render))\<rparr>)"
  by (simp add: fetchSessionStats_def Let_def split: option.splits)

lemma fetchSessionStats_frame:
  "participantEmotions (fetchSessionStats render resp s) = participantEmotions s
   \<and> timelineDataRef (fetchSessionStats render resp s) = timelineDataRef s
   \<and> emotionTimeline (fetchSessionStats render resp s) = emotionTimeline s"
  by (simp add: fetchSessionStats_def Let_def split: option.splits)

lemma engagementScore_initial: "engagementScore (emotionTimeline initial_view) = 50"
  by (simp add: engagementScore_def initial_view_def slice_from_end_def window_total_def)

lemma live_run_snoc:
  "live_run (msgs @ [(c, data, resp)]) = socket_message c data resp (live_run msgs)"
  by (simp add: live_run_def)

lemma handleEmotionUpdate_cong:
  assumes "participantEmotions s = participantEmotions s'"
    and "timelineDataRef s = timelineDataRef s'"
  shows "participantEmotions (handleEmotionUpdate c data s)
           = participantEmotions (handleEmotionUpdate c data s')
         \<and> timelineDataRef (handleEmotionUpdate c data s)
           = timelineDataRef (handleEmotionUpdate c data s')
         \<and> emotionTimeline (handleEmotionUpdate c data s)
           = emotionTimeline (handleEmotionUpdate c data s')"
  using assms by (simp add: handleEmotionUpdate_def Let_def)

text \<open>The responses change neither the map nor the timeline: on these the view with
  responses is the view of the messages alone.\<close>

lemma live_run_run:
  "participantEmotions (live_run msgs)
      = participantEmotions (run (map (\<lambda>(c, data, resp). (c, data)) msgs))
   \<and> timelineDataRef (live_run msgs)
      = timelineDataRef (run (map (\<lambda>(c, data, resp). (c, data)) msgs))
   \<and> emotionTimeline (live_run msgs)
      = emotionTimeline (run (map (\<lambda>(c, data, resp). (c, data)) msgs))"
proof (induction msgs rule: rev_induct)
  case Nil
  show ?case by (simp add: live_run_def run_def)
next
  case (snoc m msgs)
  obtain c data resp where m: "m = (c, data, resp)" by (cases m)
  from snoc.IH
  have "participantEmotions (live_run msgs)
          = participantEmotions (run (map (\<lambda>(c, data, resp). (c, data)) msgs))"
    and "timelineDataRef (live_run msgs)
          = timelineDataRef (run (map (\<lambda>(c, data, resp). (c, data)) msgs))"
    by simp_all
  from handleEmotionUpdate_cong [OF this, of c data]
  show ?case
    by (simp add: m live_run_snoc run_snoc socket_message_def fetchSessionStats_frame)
qed

lemma handler_stats:
  "sessionStats (live_run (msgs @ [(c, data, Some (r\<lparr>success := True\<rparr>))]))
     = Some (r\<lparr>success := True, engagement_score := Some 50, participant_count := Some 0\<rparr>)"
  by (simp add: live_run_snoc socket_message_def fetchSessionStats_ok engagementScore_initial)
     (simp add: initial_view_def)

text \<open>
  The map of participant emotions only gains or replaces entries: a step of the handler
  adds the id of the event to the keys and removes none, \<open>fetchSessionStats\<close> leaves
  the map as it is, and the number of entries after a run is the number of distinct
  participant ids seen, which never decreases as more events arrive.
\<close>

lemma participantEmotions_grows:
  "fst ` set (participantEmotions (handleEmotionUpdate c data s))
     = insert (participantId data) (fst ` set (participantEmotions s))
   \<and> participantEmotions (fetchSessionStats render resp s) = participantEmotions s
   \<and> length (participantEmotions (run msgs))
       = card (set (map (\<lambda>(c, data). participantId data) msgs))
   \<and> fst ` set (participantEmotions (run msgs))
       \<subseteq> fst ` set (participantEmotions (run (msgs @ later)))
   \<and> length (participantEmotions (run msgs))
       \<le> length (participantEmotions (run (msgs @ later)))"
proof -
  have a: "fst ` set (participantEmotions (handleEmotionUpdate c data s))
            = insert (participantId data) (fst ` set (participantEmotions s))"
    by (simp add: participantEmotions_step dom_update)
  have b: "participantEmotions (fetchSessionStats render resp s) = participantEmotions s"
    by (simp add: fetchSessionStats_frame)
  have d: "fst ` set (participantEmotions (run msgs))
            \<subseteq> fst ` set (participantEmotions (run (msgs @ later)))"
    by (simp add: keys_run)
  have "card (set (map (\<lambda>(c, data). participantId data) msgs))
          \<le> card (set (map (\<lambda>(c, data). participantId data) (msgs @ later)))"
    by (rule card_mono) auto
  then have e: "length (participantEmotions (run msgs))
                 \<le> length (participantEmotions (run (msgs @ later)))"
    by (simp only: count_run)
  from a b d e count_run [of msgs] show ?thesis by blast
qed

section \<open>The claims about the live-session view\<close>

text \<open>
  C1. The claim: for every sequence of accepted events the engagement score is the
  reference formula over the window of the 10 most recent events in insertion order.
  The scorer computes that formula on the timeline it reads (lemma
  \<open>engagementScore_reference\<close>), and the timeline of the view holds the most recent
  events. But the \<open>fetchSessionStats\<close> that the socket handler calls reads the
  timeline of the mount render, which is empty: whatever events have arrived, the
  \<open>engagement_score\<close> it stores is 50. After ten angry events the timeline of the
  view holds the ten events, the formula over them gives 0, and the score stored is 50.
\<close>

theorem C1_handler_score_is_stale:
  "map_option engagement_score
     (sessionStats (live_run (msgs @ [(c, data, Some (r\<lparr>success := True\<rparr>))])))
     = Some (Some 50)
   \<and> map emotion (emotionTimeline (live_run (replicate 10 (clock_a, R_angry, Some ok_response))))
       = replicate 10 ''angry''
   \<and> engagementScore (emotionTimeline (live_run (replicate 10 (clock_a, R_angry, Some ok_response))))
       = 0
   \<and> reference_score 10 (replicate 10 ''angry'') = 0
   \<and> map_option engagement_score
         (sessionStats (live_run (replicate 10 (clock_a, R_angry, Some ok_response))))
       = Some (Some 50)"
proof (intro conjI)
  let ?m = "(clock_a, R_angry, Some ok_response)"
  have ok: "ok_response\<lparr>success := True\<rparr> = ok_response"
    by (simp add: ok_response_def)
  have "replicate (Suc 9) ?m = replicate 9 ?m @ [?m]"
    by (simp only: replicate_Suc replicate_append_same)
  then have ten: "replicate 10 ?m = replicate 9 ?m @ [?m]"
    by simp
  have tl: "emotionTimeline (live_run (replicate 10 ?m))
              = replicate 10 (timeline_entry clock_a R_angry)"
    by (simp add: live_run_run emotionTimeline_run timelineDataRef_run slice_from_end_def)
  have e: "emotion (timeline_entry clock_a R_angry) = ''angry''"
    by (simp add: timeline_entry_def R_angry_def)
  have ref: "reference_score 10 (replicate 10 ''angry'') = 0"
    by (simp add: reference_score_def recency_window_def clamp_def)
  show "map_option engagement_score
          (sessionStats (live_run (msgs @ [(c, data, Some (r\<lparr>success := True\<rparr>))])))
        = Some (Some 50)"
    by (simp add: handler_stats)
  show "map emotion (emotionTimeline (live_run (replicate 10 ?m))) = replicate 10 ''angry''"
    by (simp add: tl e)
  show "engagementScore (emotionTimeline (live_run (replicate 10 ?m))) = 0"
    by (simp add: engagementScore_reference tl e ref)
  show "reference_score 10 (replicate 10 ''angry'') = 0"
    by (rule ref)
  show "map_option engagement_score (sessionStats (live_run (replicate 10 ?m))) = Some (Some 50)"
    using handler_stats [of "replicate 9 ?m" clock_a R_angry ok_response]
    by (simp add: ok ten)
qed

text \<open>
  C2 (as amended). The tracker of the view overwrites the entry of the participant on
  every incoming event, whatever the timestamps: the entry is the incoming event with
  its timestamp replaced by the time of arrival, and no other entry changes. The last
  event to arrive wins.
\<close>

theorem C2_tracker_last_arrival_wins:
  "map_of (participantEmotions (handleEmotionUpdate c data s))
     = (map_of (participantEmotions s))
         (participantId data \<mapsto> data\<lparr>timestamp := DateObject (new_Date c)\<rparr>)"
  by (simp add: participantEmotions_step update_conv' participant_entry_def)

text \<open>
  C2 as stated fails: participant P reports happy at t=10, then a late event sad at t=5
  arrives; the entry of P then holds sad, not happy.
\<close>

theorem C2_late_event_counterexample:
  "map_option emotion
     (map_of (participantEmotions (run [(clock_a, P_happy_t10), (clock_b, P_sad_t5)])) ''P'')
     = Some ''sad''
   \<and> map_option emotion
     (map_of (participantEmotions (run [(clock_a, P_happy_t10), (clock_b, P_sad_t5)])) ''P'')
     \<noteq> Some ''happy''"
  by (simp add: run_def initial_view_def handleEmotionUpdate_def Let_def participant_entry_def
      P_happy_t10_def P_sad_t5_def)

text \<open>
  C3 (as amended). Every accepted event is appended at the end of the timeline in
  insertion order and entries are never reordered; the timeline is bounded: after n
  accepted events it holds the most recent \<open>min n 20\<close> of them, in insertion order,
  the older ones having been removed from the front.
\<close>

theorem C3_timeline_last_20:
  "timelineDataRef (run msgs)
     = drop (length msgs - MAX_TIMELINE_POINTS) (map (\<lambda>(c, data). timeline_entry c data) msgs)
   \<and> emotionTimeline (run msgs) = timelineDataRef (run msgs)
   \<and> length (timelineDataRef (run msgs)) = min (length msgs) MAX_TIMELINE_POINTS"
  by (simp add: timelineDataRef_run emotionTimeline_run slice_from_end_def
      MAX_TIMELINE_POINTS_def)

text \<open>
  C3 as stated fails: after 21 accepted events the timeline has 20 entries and the
  first event is no longer in it.
\<close>

theorem C3_timeline_counterexample:
  "length (timelineDataRef (run ((clock_a, P_happy_t10) # replicate 20 (clock_b, Q_neutral)))) = 20
   \<and> timeline_entry clock_a P_happy_t10
       \<notin> set (timelineDataRef (run ((clock_a, P_happy_t10) # replicate 20 (clock_b, Q_neutral))))"
  by (simp add: timelineDataRef_run slice_from_end_def timeline_entry_def
      P_happy_t10_def Q_neutral_def clock_a_def clock_b_def)

text \<open>
  C4. The scorer is total and bounded: the divisor is \<open>max 1 windowSize\<close>, never 0;
  the score of the empty timeline is 50, as is that of a timeline of neutral events
  only; and for every timeline the score lies in [0,100].
\<close>

theorem C4_score_bounded:
  "1 \<le> window_total w \<and> window_total w = max 1 (length w)
   \<and> engagementScore [] = 50
   \<and> ((\<forall>e \<in> set es. emotion e = ''neutral'') \<longrightarrow> engagementScore es = 50)
   \<and> 0 \<le> engagementScore es \<and> engagementScore es \<le> 100"
proof -
  have neutral: "engagementScore es = 50" if n: "\<forall>e \<in> set es. emotion e = ''neutral''"
  proof -
    have "\<forall>e \<in> set (slice_from_end 10 es). emotion e = ''neutral''"
      using n by (auto simp: slice_from_end_def dest: in_set_dropD)
    then have "filter (\<lambda>e. emotion e \<in> {''happy'', ''surprise''}) (slice_from_end 10 es) = []"
      and "filter (\<lambda>e. emotion e \<in> {''sad'', ''angry'', ''fear'', ''disgust''})
             (slice_from_end 10 es) = []"
      by (auto simp: filter_empty_conv)
    then show ?thesis
      by (simp add: engagementScore_def Let_def countEmotions_filter)
  qed
  have empty: "engagementScore [] = 50"
    by (simp add: engagementScore_def slice_from_end_def window_total_def)
  show ?thesis
    using neutral empty engagementScore_range [of es]
    by (simp add: window_total_max)
qed

theorem C4_score_bounded_witness:
  "emotion Q_neutral = ''neutral''
   \<and> engagementScore [Q_neutral, Q_neutral, Q_neutral] = 50
   \<and> window_total [] = 1"
  using C4_score_bounded [of "[]" "[Q_neutral, Q_neutral, Q_neutral]"]
  by (simp add: Q_neutral_def)

text \<open>
  C9. The claim: the map of participant emotions never loses an entry, so the reported
  \<open>participant_count\<close> is the number of distinct participant ids seen since the view
  started and never decreases. The map does only grow (lemma
  \<open>participantEmotions_grows\<close>), but the count is read from the map of the render that
  defined \<open>fetchSessionStats\<close>: the socket handler reports the size of the mount
  render's empty map, 0, whatever events have arrived. After one event from P the map
  has one entry and the count reported is 0. And the count can fall: a poll started in
  a render that had seen three participants reports 3, and the next socket message
  reports 0, while the map still holds the three.
\<close>

theorem C9_reported_count_is_stale:
  "map_option participant_count
     (sessionStats (live_run (msgs @ [(c, data, Some (r\<lparr>success := True\<rparr>))])))
     = Some (Some 0)
   \<and> length (participantEmotions (live_run [(clock_a, P_happy_t10, Some ok_response)])) = 1
   \<and> map_option participant_count
         (sessionStats (live_run [(clock_a, P_happy_t10, Some ok_response)]))
       = Some (Some 0)
   \<and> map_option participant_count
         (sessionStats
           (fetchSessionStats
              (run [(clock_a, P_happy_t10), (clock_a, Q_neutral), (clock_b, R_angry)])
              (Some ok_response)
              (run [(clock_a, P_happy_t10), (clock_a, Q_neutral), (clock_b, R_angry)])))
       = Some (Some 3)
   \<and> map_option participant_count
         (sessionStats
           (socket_message clock_b P_sad_t5 (Some ok_response)
             (fetchSessionStats
                (run [(clock_a, P_happy_t10), (clock_a, Q_neutral), (clock_b, R_angry)])
                (Some ok_response)
                (run [(clock_a, P_happy_t10), (clock_a, Q_neutral), (clock_b, R_angry)]))))
       = Some (Some 0)"
proof (intro conjI)
  let ?three = "run [(clock_a, P_happy_t10), (clock_a, Q_neutral), (clock_b, R_angry)]"
  have ok: "ok_response\<lparr>success := True\<rparr> = ok_response"
    by (simp add: ok_response_def)
  have three: "length (participantEmotions ?three) = 3"
    by (simp add: count_run P_happy_t10_def Q_neutral_def R_angry_def)
  show "map_option participant_count
          (sessionStats (live_run (msgs @ [(c, data, Some (r\<lparr>success := True\<rparr>))])))
        = Some (Some 0)"
    by (simp add: handler_stats)
  show "length (participantEmotions (live_run [(clock_a, P_happy_t10, Some ok_response)])) = 1"
    by (simp add: live_run_run count_run)
  show "map_option participant_count
          (sessionStats (live_run [(clock_a, P_happy_t10, Some ok_response)]))
        = Some (Some 0)"
    using handler_stats [of "[]" clock_a P_happy_t10 ok_response] ok by simp
  show "map_option participant_count
          (sessionStats (fetchSessionStats ?three (Some ok_response) ?three))
        = Some (Some 3)"
    using fetchSessionStats_ok [of ?three ok_response ?three] ok three by simp
  show "map_option participant_count
          (sessionStats
            (socket_message clock_b P_sad_t5 (Some ok_response)
              (fetchSessionStats ?three (Some ok_response) ?three)))
        = Some (Some 0)"
    using fetchSessionStats_ok [of initial_view ok_response
        "handleEmotionUpdate clock_b P_sad_t5 (fetchSessionStats ?three (Some ok_response) ?three)"]
      ok
    by (simp add: socket_message_def) (simp add: initial_view_def)
qed

text \<open>
  C10. The score shown is chosen by a truthiness test: a score of exactly 0 and an
  absent score give the same display, the text 0% over a bar of width 0; and a score
  \<open>s\<close> with \<open>0 < s \<le> 100\<close> is shown as the integer nearest to \<open>s\<close> (a half rounds
  up), followed by the percent sign.
\<close>

theorem C10_score_display:
  "EmotionStats_score (stats\<lparr>engagement_score := Some 0\<rparr>)
     = EmotionStats_score (stats\<lparr>engagement_score := None\<rparr>)
   \<and> EmotionStats_score (stats\<lparr>engagement_score := None\<rparr>)
       = \<lparr>score_text = Some ''0%'', bar_width = 0\<rparr>
   \<and> (0 < s \<and> s \<le> 100 \<longrightarrow>
        score_text (EmotionStats_score (stats\<lparr>engagement_score := Some s\<rparr>))
          = Some (decimal (nat (round s)) @ ''%'')
        \<and> \<bar>of_int (round s) - s\<bar> \<le> 1 / 2)"
proof -
  have r: "\<bar>of_int (round s) - s\<bar> \<le> 1 / 2"
    by (rule of_int_round_abs_le)
  have big: "\<not> (10 ^ 21 \<le> \<bar>s\<bar>)" if "0 < s" "s \<le> 100"
    using that by simp
  show ?thesis
    using r big
    by (simp add: EmotionStats_score_def truthy_def toFixed0_def round_def)
qed

theorem C10_score_display_witness:
  "(0::real) < 66.5 \<and> (66.5::real) \<le> 100
   \<and> score_text (EmotionStats_score (ok_response\<lparr>engagement_score := Some 66.5\<rparr>)) = Some ''67%''"
  using C10_score_display [of ok_response "66.5"]
  by (simp add: round_def decimal.simps decimal_digit_def)

section \<open>Facts about the aggregation engine\<close>

lemma label_of_None: "label_of s = None \<longleftrightarrow>
    s \<notin> {''happy'', ''sad'', ''angry'', ''surprise'', ''fear'', ''disgust'', ''neutral''}"
  by (simp add: label_of_def)

lemma normalize_error_iff:
  "(\<exists>e. normalize_event r = Inl e) \<longleftrightarrow>
     label_of (raw_emotion r) = None
     \<or> (case raw_confidence r of NonNumeric \<Rightarrow> True | Numeric c \<Rightarrow> c < 0 \<or> 100 < c)
     \<or> raw_sessionId r = [] \<or> raw_participantId r = []"
  by (auto simp: normalize_event_def split: option.splits raw_number.splits)

lemma normalize_accepts:
  assumes "\<not> (\<exists>e. normalize_event r = Inl e)"
  shows "\<exists>l c. label_of (raw_emotion r) = Some l \<and> raw_confidence r = Numeric c
           \<and> normalize_event r = Inr \<lparr>ev_sessionId = raw_sessionId r,
                ev_participantId = raw_participantId r, ev_emotion = l,
                ev_confidence = c, ev_timestamp = raw_timestamp r\<rparr>"
  using assms
  by (auto simp: normalize_event_def split: option.splits raw_number.splits if_splits)

lemma ingest_stopped: "ingest t r (stop now a) = Inl StateError"
  by (simp add: ingest_def stop_def)

lemma after_ingest_stopped: "after_ingest t r (stop now a) = stop now a"
  by (simp add: after_ingest_def ingest_stopped)

lemma after_ingest_invalid: "normalize_event r = Inl e \<Longrightarrow> after_ingest t r a = a"
  by (simp add: after_ingest_def ingest_def)

lemma ingest_alertState:
  "ingest t r a = Inr a' \<Longrightarrow> alertState a' = evaluate t (summaryPercentages (emotionCounts a'))"
  by (auto simp: ingest_def Let_def split: if_splits sum.splits)

lemma total_fun_upd:
  "totalAcceptedEvents (c(l := Suc (c l))) = Suc (totalAcceptedEvents c)"
  by (cases l) (simp_all add: totalAcceptedEvents_def all_labels_def)

lemma after_ingest_total:
  assumes "totalAcceptedEvents (emotionCounts a) = length (timeline a)"
  shows "totalAcceptedEvents (emotionCounts (after_ingest t r a)) = length (timeline (after_ingest t r a))"
  using assms
  by (auto simp: after_ingest_def ingest_def Let_def total_fun_upd split: sum.splits)

lemma ingests_total:
  assumes "totalAcceptedEvents (emotionCounts a) = length (timeline a)"
  shows "totalAcceptedEvents (emotionCounts (foldl (\<lambda>a r. after_ingest t r a) a rs))
           = length (timeline (foldl (\<lambda>a r. after_ingest t r a) a rs))"
  using assms
  by (induction rs arbitrary: a) (simp_all add: after_ingest_total)

lemma percentages_sum:
  assumes "totalAcceptedEvents c \<noteq> 0"
  shows "sum_list (map (summaryPercentages c) all_labels) = 100"
proof -
  let ?T = "real (totalAcceptedEvents c)"
  have T: "?T \<noteq> 0" using assms by simp
  have "sum_list (map (summaryPercentages c) all_labels)
          = (real (c Happy) + real (c Sad) + real (c Angry) + real (c Surprise)
             + real (c Fear) + real (c Disgust) + real (c Neutral)) / ?T * 100"
    using assms by (simp add: summaryPercentages_def all_labels_def add_divide_distrib distrib_right)
  also have "real (c Happy) + real (c Sad) + real (c Angry) + real (c Surprise)
             + real (c Fear) + real (c Disgust) + real (c Neutral) = ?T"
    by (simp add: totalAcceptedEvents_def all_labels_def)
  finally show ?thesis using T by simp
qed

text \<open>
  The end-to-end scenario of the specification: session S1 takes happy from P1, sad from
  P2 and happy from P1 again.
\<close>

lemma end_to_end_scenario:
  "emotionCounts (foldl (\<lambda>a r. after_ingest sample_template r a) (start 0 ''S1'')
       [raw_P1_happy, raw_P2_sad, raw_P1_happy\<lparr>raw_confidence := Numeric 85, raw_timestamp := 3\<rparr>])
     = (\<lambda>_. 0)(Happy := 2, Sad := 1)
   \<and> aggregate_engagementScore (foldl (\<lambda>a r. after_ingest sample_template r a) (start 0 ''S1'')
       [raw_P1_happy, raw_P2_sad, raw_P1_happy\<lparr>raw_confidence := Numeric 85, raw_timestamp := 3\<rparr>])
     = 50 + (1 / 3) * 50
   \<and> alertState (foldl (\<lambda>a r. after_ingest sample_template r a) (start 0 ''S1'')
       [raw_P1_happy, raw_P2_sad, raw_P1_happy\<lparr>raw_confidence := Numeric 85, raw_timestamp := 3\<rparr>])
     = None
   \<and> map fst (participants (foldl (\<lambda>a r. after_ingest sample_template r a) (start 0 ''S1'')
       [raw_P1_happy, raw_P2_sad, raw_P1_happy\<lparr>raw_confidence := Numeric 85, raw_timestamp := 3\<rparr>]))
     = [''P1'', ''P2'']"
  by (simp add: after_ingest_def ingest_def start_def normalize_event_def label_of_def Let_def
      raw_P1_happy_def raw_P2_sad_def reference_score_def recency_window_def clamp_def
      evaluate_def disengagedPct_def summaryPercentages_def totalAcceptedEvents_def
      all_labels_def tracker_update_def state_of_event_def fun_eq_iff)

section \<open>The claims about the aggregation engine\<close>

text \<open>
  C5. With \<open>disengagedPct\<close> the sum of the percentages of sad, angry, fear and
  disgust, the alert evaluator returns level high from 60 on, level low from 35 up to
  60, and no alert below 35; the alert carries \<open>disengagedPct\<close>. Alerts are not sticky:
  after every accepted event the alert state is what the evaluator returns for the new
  percentages, whatever it was before.
\<close>

theorem C5_alert_thresholds:
  "(60 \<le> disengagedPct p \<longrightarrow> map_option level (evaluate t p) = Some ''high'')
   \<and> (35 \<le> disengagedPct p \<and> disengagedPct p < 60 \<longrightarrow>
        map_option level (evaluate t p) = Some ''low'')
   \<and> (disengagedPct p < 35 \<longrightarrow> evaluate t p = None)
   \<and> map_option percentage (evaluate t p)
       = (if 35 \<le> disengagedPct p then Some (disengagedPct p) else None)
   \<and> (ingest t r a = Inr a' \<longrightarrow>
        alertState a' = evaluate t (summaryPercentages (emotionCounts a')))"
  using ingest_alertState [of t r a a']
  by (simp add: evaluate_def Let_def)

theorem C5_alert_thresholds_witness:
  "evaluate sample_template (pct_sad 34) = None
   \<and> map_option level (evaluate sample_template (pct_sad 35)) = Some ''low''
   \<and> map_option level (evaluate sample_template (pct_sad 60)) = Some ''high''
   \<and> map_option level (evaluate sample_template (pct_sad 100)) = Some ''high''
   \<and> alertState (after_ingest sample_template raw_P1_happy
                   ((start 0 ''S1'')\<lparr>alertState := Some high_alert\<rparr>)) = None"
proof -
  let ?a = "(start 0 ''S1'')\<lparr>alertState := Some high_alert\<rparr>"
  let ?a' = "after_ingest sample_template raw_P1_happy ?a"
  have d: "disengagedPct (pct_sad x) = x" for x
    by (simp add: disengagedPct_def pct_sad_def)
  have i: "ingest sample_template raw_P1_happy ?a = Inr ?a'"
    by (simp add: after_ingest_def ingest_def start_def normalize_event_def raw_P1_happy_def
        label_of_def Let_def)
  have z: "disengagedPct (summaryPercentages (emotionCounts ?a')) = 0"
    by (simp add: after_ingest_def ingest_def start_def normalize_event_def raw_P1_happy_def
        label_of_def Let_def disengagedPct_def summaryPercentages_def)
  show ?thesis
    using C5_alert_thresholds [of "pct_sad 34" sample_template]
      C5_alert_thresholds [of "pct_sad 35" sample_template]
      C5_alert_thresholds [of "pct_sad 60" sample_template]
      C5_alert_thresholds [of "pct_sad 100" sample_template]
      C5_alert_thresholds [of "summaryPercentages (emotionCounts ?a')" sample_template
        raw_P1_happy ?a ?a']
    by (simp add: d i z)
qed

text \<open>
  C6. The summary percentages are recomputed from the counts: with no accepted event
  every percentage is 0; otherwise the percentage of a label is its count divided by the
  number of accepted events, times 100, and the percentages of all labels sum to 100.
  The number of accepted events is the sum of the counts, which for every aggregate
  grown from \<open>start\<close> by \<open>ingest\<close> is the length of its timeline.
\<close>

theorem C6_summary_percentages:
  "(totalAcceptedEvents c = 0 \<longrightarrow> summaryPercentages c l = 0)
   \<and> (totalAcceptedEvents c \<noteq> 0 \<longrightarrow>
        summaryPercentages c l = real (c l) / real (totalAcceptedEvents c) * 100)
   \<and> (totalAcceptedEvents c \<noteq> 0 \<longrightarrow>
        sum_list (map (summaryPercentages c) all_labels) = 100)
   \<and> totalAcceptedEvents
         (emotionCounts (foldl (\<lambda>a r. after_ingest t r a) (start now sid) rs))
       = length (timeline (foldl (\<lambda>a r. after_ingest t r a) (start now sid) rs))"
proof -
  have "totalAcceptedEvents (emotionCounts (start now sid)) = length (timeline (start now sid))"
    by (simp add: start_def totalAcceptedEvents_def all_labels_def)
  then have "totalAcceptedEvents
               (emotionCounts (foldl (\<lambda>a r. after_ingest t r a) (start now sid) rs))
             = length (timeline (foldl (\<lambda>a r. after_ingest t r a) (start now sid) rs))"
    by (rule ingests_total)
  then show ?thesis
    using percentages_sum [of c] by (simp add: summaryPercentages_def)
qed

theorem C6_summary_percentages_witness:
  "totalAcceptedEvents counts_2_happy_1_sad = 3
   \<and> summaryPercentages counts_2_happy_1_sad Happy = 200 / 3
   \<and> summaryPercentages counts_2_happy_1_sad Sad = 100 / 3
   \<and> sum_list (map (summaryPercentages counts_2_happy_1_sad) all_labels) = 100
   \<and> summaryPercentages (\<lambda>_. 0) Happy = 0"
proof -
  have t3: "totalAcceptedEvents counts_2_happy_1_sad = 3"
    by (simp add: totalAcceptedEvents_def all_labels_def counts_2_happy_1_sad_def)
  have t0: "totalAcceptedEvents (\<lambda>_. 0) = 0"
    by (simp add: totalAcceptedEvents_def all_labels_def)
  have h: "counts_2_happy_1_sad Happy = 2" and s: "counts_2_happy_1_sad Sad = 1"
    by (simp_all add: counts_2_happy_1_sad_def)
  show ?thesis
    using C6_summary_percentages [of counts_2_happy_1_sad Happy]
      C6_summary_percentages [of counts_2_happy_1_sad Sad]
      C6_summary_percentages [of "\<lambda>_. 0" Happy]
    by (simp add: t3 t0 h s)
qed

text \<open>
  C7. After \<open>stop\<close> has set \<open>endTime\<close>, every further \<open>ingest\<close> is rejected with
  \<open>StateError\<close> and the aggregate stays exactly as it was, after one call and after
  any number of calls: no field changes, in particular not \<open>emotionCounts\<close>,
  \<open>timeline\<close> or the engagement score. \<open>stop\<close> itself changes \<open>endTime\<close> only.
\<close>

theorem C7_stopped_immutable:
  "endTime (stop now a) = Some now
   \<and> ingest t r (stop now a) = Inl StateError
   \<and> after_ingest t r (stop now a) = stop now a
   \<and> foldl (\<lambda>a r. after_ingest t r a) (stop now a) rs = stop now a
   \<and> emotionCounts (after_ingest t r (stop now a)) = emotionCounts a
   \<and> timeline (after_ingest t r (stop now a)) = timeline a
   \<and> aggregate_engagementScore (after_ingest t r (stop now a)) = aggregate_engagementScore a"
proof -
  have "foldl (\<lambda>a r. after_ingest t r a) (stop now a) rs = stop now a"
    by (induction rs) (simp_all add: after_ingest_stopped)
  then show ?thesis
    by (simp add: ingest_stopped after_ingest_stopped) (simp add: stop_def)
qed

text \<open>
  C8. \<open>normalize\<close> (here \<open>normalize_event\<close>) returns a validation error exactly when the emotion label is outside
  the closed set of seven labels, the confidence is not numeric or lies outside [0,100]
  (it is rejected, never clamped), or the session id or the participant id is empty.
  An event that is rejected enters no aggregate: the aggregate after the \<open>ingest\<close> is
  the one before. Every other input is returned as the normalized event, with its
  confidence as given.
\<close>

theorem C8_normalize_rejects_exactly:
  "((\<exists>e. normalize_event r = Inl e) \<longleftrightarrow>
      raw_emotion r \<notin> {''happy'', ''sad'', ''angry'', ''surprise'', ''fear'', ''disgust'', ''neutral''}
      \<or> (case raw_confidence r of NonNumeric \<Rightarrow> True | Numeric c \<Rightarrow> c < 0 \<or> 100 < c)
      \<or> raw_sessionId r = [] \<or> raw_participantId r = [])
   \<and> ((\<exists>e. normalize_event r = Inl e) \<longrightarrow> after_ingest t r a = a)
   \<and> (\<not> (\<exists>e. normalize_event r = Inl e) \<longrightarrow>
        (\<exists>l c. label_of (raw_emotion r) = Some l \<and> raw_confidence r = Numeric c
           \<and> normalize_event r = Inr \<lparr>ev_sessionId = raw_sessionId r,
                ev_participantId = raw_participantId r, ev_emotion = l,
                ev_confidence = c, ev_timestamp = raw_timestamp r\<rparr>))"
proof (intro conjI)
  show "(\<exists>e. normalize_event r = Inl e) \<longleftrightarrow>
      raw_emotion r \<notin> {''happy'', ''sad'', ''angry'', ''surprise'', ''fear'', ''disgust'', ''neutral''}
      \<or> (case raw_confidence r of NonNumeric \<Rightarrow> True | Numeric c \<Rightarrow> c < 0 \<or> 100 < c)
      \<or> raw_sessionId r = [] \<or> raw_participantId r = []"
    by (simp only: normalize_error_iff label_of_None)
  show "(\<exists>e. normalize_event r = Inl e) \<longrightarrow> after_ingest t r a = a"
    by (auto simp: after_ingest_invalid)
  show "\<not> (\<exists>e. normalize_event r = Inl e) \<longrightarrow>
        (\<exists>l c. label_of (raw_emotion r) = Some l \<and> raw_confidence r = Numeric c
           \<and> normalize_event r = Inr \<lparr>ev_sessionId = raw_sessionId r,
                ev_participantId = raw_participantId r, ev_emotion = l,
                ev_confidence = c, ev_timestamp = raw_timestamp r\<rparr>)"
    using normalize_accepts [of r] by blast
qed

theorem C8_normalize_rejects_exactly_witness:
  "normalize_event raw_P1_overconfident = Inl InvalidConfidence
   \<and> after_ingest sample_template raw_P1_overconfident (start 0 ''S1'') = start 0 ''S1''
   \<and> normalize_event raw_P1_happy
       = Inr \<lparr>ev_sessionId = ''S1'', ev_participantId = ''P1'', ev_emotion = Happy,
              ev_confidence = 90, ev_timestamp = 1\<rparr>"
proof -
  have bad: "normalize_event raw_P1_overconfident = Inl InvalidConfidence"
    by (simp add: normalize_event_def raw_P1_overconfident_def label_of_def)
  have good: "\<not> (\<exists>e. normalize_event raw_P1_happy = Inl e)"
    by (simp add: normalize_event_def raw_P1_happy_def label_of_def)
  show ?thesis
    using C8_normalize_rejects_exactly [of raw_P1_overconfident sample_template "start 0 ''S1''"]
      C8_normalize_rejects_exactly [of raw_P1_happy sample_template "start 0 ''S1''"]
    by (auto simp: bad good raw_P1_happy_def label_of_def)
qed

end
